theory Spec2Isabelle
  imports Main "HOL-Library.AList"
begin

section \<open>The code agent workflow of kindra (src/src/prompt.ts, src/src/lib/usage.ts)\<close>

text \<open>
  The development embeds \<^verbatim>\<open>codeAgentFunction\<close>, its three tool handlers, its
  \<^verbatim>\<open>onResponse\<close> hook and its router, together with \<^verbatim>\<open>refundCredit\<close>.
  Everything the workflow awaits from outside (the sandbox, the database, the language
  model, the credit ledger, the clock) is an input of the model: a value of a sum type,
  \<open>Inl\<close> for the exception that the call throws and \<open>Inr\<close> for what it returns.

  \<^verbatim>\<open>step.run(name, callback)\<close> is read as the JavaScript reads: it runs the callback
  once, in the same memory as its caller, and hands back what the callback returns or
  throws. A durable engine that replays the function with recorded step results would
  keep only the value the step returned, not what the callback wrote into an object it
  shares with its caller; the one place where the two readings differ is the file map
  after a failed batch of \<^verbatim>\<open>createOrUpdateFiles\<close>. The log \<open>steps\<close> of the world
  records the names of the steps that were run.
\<close>

subsection \<open>Thrown values and strings\<close>

text \<open>
  A thrown value: whether it is an instance of \<^verbatim>\<open>Error\<close>, its \<^verbatim>\<open>message\<close>, and
  the text that string conversion gives for it.
\<close>

datatype exn = Exn (is_Error: bool) (exn_message: string) (exn_text: string)

text \<open>JavaScript truthiness of a string: every string but the empty one.\<close>

definition truthy :: "string \<Rightarrow> bool" where
  "truthy s = (s \<noteq> [])"

text \<open>\<^verbatim>\<open>String.prototype.includes\<close>: the pattern occurs somewhere in the text.\<close>

fun starts_with :: "string \<Rightarrow> string \<Rightarrow> bool" where
  "starts_with [] s = True"
| "starts_with (p # ps) [] = False"
| "starts_with (p # ps) (c # cs) = (p = c \<and> starts_with ps cs)"

fun str_includes :: "string \<Rightarrow> string \<Rightarrow> bool" where
  "str_includes [] pat = (pat = [])"
| "str_includes (c # cs) pat = (starts_with pat (c # cs) \<or> str_includes cs pat)"

subsection \<open>AgentState\<close>

text \<open>
  \<^verbatim>\<open>files\<close> is a JavaScript object used as a dictionary from path to content. It is
  an association list with distinct keys: \<open>AList.update\<close> overwrites the value of a key
  that is present and appends a key that is not, and \<^verbatim>\<open>Object.keys\<close> is the list of
  first components. The list keeps the order of insertion, where JavaScript lists
  integer-like keys first, and it stores the path \<^verbatim>\<open>__proto__\<close> as any other key,
  where JavaScript stores no own key for it; the statements below are about sets of keys
  and do not rest on either.
\<close>

type_synonym files_obj = "(string \<times> string) list"

record AgentState =
  summary :: string
  files :: files_obj

definition Object_keys :: "files_obj \<Rightarrow> string list" where
  "Object_keys obj = map fst obj"

definition initial_state :: AgentState where
  "initial_state = \<lparr>summary = [], files = []\<rparr>"

subsection \<open>The terminal tool (prompt.ts 593-611)\<close>

record cmd_result =
  stdout :: string
  stderr :: string
  exitCode :: int

datatype chunk = OnStdout string | OnStderr string

record buffers =
  buf_stdout :: string
  buf_stderr :: string

text \<open>
  What the sandbox does during one call of the terminal tool: whether \<^verbatim>\<open>getSandbox\<close>
  throws, the chunks handed to the two callbacks before \<^verbatim>\<open>commands.run\<close> settles,
  and how it settles.
\<close>

record terminal_io =
  term_getSandbox :: "exn option"
  term_chunks :: "chunk list"
  term_run :: "exn + cmd_result"

fun feed :: "buffers \<Rightarrow> chunk \<Rightarrow> buffers" where
  "feed b (OnStdout d) = b\<lparr>buf_stdout := buf_stdout b @ d\<rparr>"
| "feed b (OnStderr d) = b\<lparr>buf_stderr := buf_stderr b @ d\<rparr>"

definition empty_buffers :: buffers where
  "empty_buffers = \<lparr>buf_stdout = [], buf_stderr = []\<rparr>"

definition command_failed :: "exn \<Rightarrow> buffers \<Rightarrow> string" where
  "command_failed e b =
     ''Command failed: '' @ exn_text e @ '' \<newline>stdout: '' @ buf_stdout b
       @ ''\<newline>stderr: '' @ buf_stderr b"

definition terminal_step :: "terminal_io \<Rightarrow> string \<Rightarrow> string" where
  "terminal_step io command =
     (case term_getSandbox io of
        Some e \<Rightarrow> command_failed e empty_buffers
      | None \<Rightarrow>
          (let b = foldl feed empty_buffers (term_chunks io) in
           case term_run io of
             Inr result \<Rightarrow> stdout result
           | Inl e \<Rightarrow> command_failed e b))"

text \<open>
  What a handler gives back to the agent. \<open>Undefined\<close> is the value of a handler that
  has no \<^verbatim>\<open>return\<close>, and of \<^verbatim>\<open>step?.run\<close> when \<^verbatim>\<open>step\<close> is undefined.
  \<open>JsonText\<close> stands for \<^verbatim>\<open>JSON.stringify\<close> of the array it carries.
\<close>

datatype tool_output = Text string | JsonText "(string \<times> string) list" | Undefined

definition terminal_handler :: "bool \<Rightarrow> terminal_io \<Rightarrow> string \<Rightarrow> tool_output" where
  "terminal_handler step io command =
     (if step then Text (terminal_step io command) else Undefined)"

subsection \<open>The createOrUpdateFiles tool (prompt.ts 625-643)\<close>

text \<open>
  What the sandbox does during one call: whether \<^verbatim>\<open>getSandbox\<close> throws, and for the
  i-th \<^verbatim>\<open>files.write\<close> of the batch whether it throws.
\<close>

record files_io =
  cou_getSandbox :: "exn option"
  cou_write :: "nat \<Rightarrow> exn option"

text \<open>
  The \<^verbatim>\<open>for\<close> loop of the callback. \<^verbatim>\<open>updatedFiles\<close> is
  \<^verbatim>\<open>network.state.data.files || {}\<close>: an object is truthy, so \<^verbatim>\<open>updatedFiles\<close>
  is the very object the state holds, and \<^verbatim>\<open>updatedFiles[file.path] = file.content\<close>
  writes into the state's object. The loop therefore threads that one object; it gives
  back the exception that stopped it, if any, and the object as the loop left it.
\<close>

fun write_loop ::
  "(nat \<Rightarrow> exn option) \<Rightarrow> nat \<Rightarrow> (string \<times> string) list \<Rightarrow> files_obj \<Rightarrow> exn option \<times> files_obj"
where
  "write_loop wr i [] obj = (None, obj)"
| "write_loop wr i (file # rest) obj =
     (case wr i of
        Some e \<Rightarrow> (Some e, obj)
      | None \<Rightarrow> write_loop wr (Suc i) rest (AList.update (fst file) (snd file) obj))"

datatype step_value = ObjVal files_obj | StrVal string | UndefinedVal

text \<open>
  The callback of the step: its value, and the state's \<^verbatim>\<open>files\<close> object after it ran.
\<close>

definition createOrUpdateFiles_step ::
  "files_io \<Rightarrow> (string \<times> string) list \<Rightarrow> files_obj \<Rightarrow> step_value \<times> files_obj"
where
  "createOrUpdateFiles_step io fs obj =
     (case cou_getSandbox io of
        Some e \<Rightarrow> (StrVal (''Error:'' @ exn_text e), obj)
      | None \<Rightarrow>
          (case write_loop (cou_write io) 0 fs obj of
             (None, obj') \<Rightarrow> (ObjVal obj', obj')
           | (Some e, obj') \<Rightarrow> (StrVal (''Error:'' @ exn_text e), obj')))"

text \<open>
  The handler. \<^verbatim>\<open>step?.run\<close> gives \<^verbatim>\<open>undefined\<close> when there is no step. The
  handler assigns \<^verbatim>\<open>network.state.data.files\<close> when \<^verbatim>\<open>typeof newFiles\<close> is
  \<^verbatim>\<open>"object"\<close>, and it has no \<^verbatim>\<open>return\<close>.
\<close>

definition createOrUpdateFiles_handler ::
  "bool \<Rightarrow> files_io \<Rightarrow> (string \<times> string) list \<Rightarrow> AgentState \<Rightarrow> tool_output \<times> AgentState"
where
  "createOrUpdateFiles_handler step io fs st =
     (case (if step
            then (case createOrUpdateFiles_step io fs (files st) of
                    (v, obj') \<Rightarrow> (v, st\<lparr>files := obj'\<rparr>))
            else (UndefinedVal, st)) of
        (newFiles, st') \<Rightarrow>
          (Undefined,
           (case newFiles of ObjVal nf \<Rightarrow> st'\<lparr>files := nf\<rparr> | _ \<Rightarrow> st')))"

subsection \<open>The readFiles tool (prompt.ts 645-667)\<close>

record read_io =
  rd_getSandbox :: "exn option"
  rd_read :: "nat \<Rightarrow> exn + string"

fun read_loop ::
  "(nat \<Rightarrow> exn + string) \<Rightarrow> nat \<Rightarrow> string list \<Rightarrow> (string \<times> string) list
     \<Rightarrow> exn + (string \<times> string) list"
where
  "read_loop rd i [] contents = Inr contents"
| "read_loop rd i (file # rest) contents =
     (case rd i of
        Inl e \<Rightarrow> Inl e
      | Inr content \<Rightarrow> read_loop rd (Suc i) rest (contents @ [(file, content)]))"

definition readFiles_step :: "read_io \<Rightarrow> string list \<Rightarrow> tool_output" where
  "readFiles_step io fs =
     (case rd_getSandbox io of
        Some e \<Rightarrow> Text (''Error:'' @ exn_text e)
      | None \<Rightarrow>
          (case read_loop (rd_read io) 0 fs [] of
             Inr contents \<Rightarrow> JsonText contents
           | Inl e \<Rightarrow> Text (''Error:'' @ exn_text e)))"

definition readFiles_handler :: "bool \<Rightarrow> read_io \<Rightarrow> string list \<Rightarrow> tool_output" where
  "readFiles_handler step io fs = (if step then readFiles_step io fs else Undefined)"

subsection \<open>Tool invocations\<close>

datatype tool_call =
    Terminal string terminal_io
  | CreateOrUpdateFiles "(string \<times> string) list" files_io
  | ReadFiles "string list" read_io

fun invoke_tool :: "bool \<Rightarrow> tool_call \<Rightarrow> AgentState \<Rightarrow> tool_output \<times> AgentState" where
  "invoke_tool step (Terminal command io) st = (terminal_handler step io command, st)"
| "invoke_tool step (CreateOrUpdateFiles fs io) st = createOrUpdateFiles_handler step io fs st"
| "invoke_tool step (ReadFiles fs io) st = (readFiles_handler step io fs, st)"

subsection \<open>The response hook and the router (prompt.ts 669-694)\<close>

text \<open>
  \<^verbatim>\<open>lastAssistantTextMessageContent\<close> is not part of the sources at hand: its value,
  a text or \<^verbatim>\<open>undefined\<close>, is an input. The hook runs inside a network, so
  \<^verbatim>\<open>network\<close> is defined.
\<close>

definition onResponse :: "string option \<Rightarrow> AgentState \<Rightarrow> AgentState" where
  "onResponse lastAssistantMessageText st =
     (case lastAssistantMessageText of
        None \<Rightarrow> st
      | Some t \<Rightarrow>
          (if truthy t \<and> str_includes t ''<task_summary>'' then st\<lparr>summary := t\<rparr> else st))"

datatype agent = CodeAgent

definition router :: "AgentState \<Rightarrow> agent option" where
  "router st = (if truthy (summary st) then None else Some CodeAgent)"

definition maxIter :: nat where
  "maxIter = 15"

subsection \<open>The rounds of the network\<close>

text \<open>
  What the language model does in one round: the inference throws, or it answers with a
  text (or none) and the tool calls it selected, each with what the sandbox does then.
\<close>

record reply =
  last_text :: "string option"
  tool_calls :: "tool_call list"

fun invoke_tools :: "bool \<Rightarrow> tool_call list \<Rightarrow> AgentState \<Rightarrow> AgentState" where
  "invoke_tools step [] st = st"
| "invoke_tools step (call # calls) st = invoke_tools step calls (snd (invoke_tool step call st))"

text \<open>
  Modelled from the spec: one round of the coding agent, which is run by the agent
  library and not by the sources at hand. Section 4.2: the model answers, the
  observation hook looks at the text of the answer, and the selected tools run one at a
  time.
\<close>

definition run_round :: "bool \<Rightarrow> exn + reply \<Rightarrow> AgentState \<Rightarrow> exn + AgentState" where
  "run_round step answer st =
     (case answer of
        Inl e \<Rightarrow> Inl e
      | Inr r \<Rightarrow> Inr (invoke_tools step (tool_calls r) (onResponse (last_text r) st)))"

text \<open>
  Modelled from the spec: the round driver behind \<^verbatim>\<open>createNetwork\<close> and
  \<^verbatim>\<open>network.run\<close>, which belongs to the agent library and not to the sources at hand.
  Section 4.3, step 3: before each round the router inspects the state; when it names no
  agent the loop halts, otherwise the coding agent runs another round; the loop runs at
  most \<^verbatim>\<open>maxIter\<close> rounds. The first argument is the number of rounds still allowed.
  The result is the exception that ended the loop, if any, and the states after each
  completed round, in order.
\<close>

fun network_loop ::
  "nat \<Rightarrow> bool \<Rightarrow> (nat \<Rightarrow> exn + reply) \<Rightarrow> nat \<Rightarrow> AgentState \<Rightarrow> exn option \<times> AgentState list"
where
  "network_loop 0 step model counter st = (None, [])"
| "network_loop (Suc budget) step model counter st =
     (case router st of
        None \<Rightarrow> (None, [])
      | Some CodeAgent \<Rightarrow>
          (case run_round step (model counter) st of
             Inl e \<Rightarrow> (Some e, [])
           | Inr st' \<Rightarrow>
               (case network_loop budget step model (Suc counter) st' of
                  (r, trace) \<Rightarrow> (r, st' # trace))))"

definition network_trace ::
  "bool \<Rightarrow> (nat \<Rightarrow> exn + reply) \<Rightarrow> AgentState \<Rightarrow> exn option \<times> AgentState list"
where
  "network_trace step model st = network_loop maxIter step model 0 st"

text \<open>
  The rounds that the loop started: those it completed, and the one whose inference
  threw, if any.
\<close>

definition rounds_started :: "exn option \<times> AgentState list \<Rightarrow> nat" where
  "rounds_started outcome =
     length (snd outcome) + (case fst outcome of None \<Rightarrow> 0 | Some e \<Rightarrow> 1)"

definition network_run :: "bool \<Rightarrow> (nat \<Rightarrow> exn + reply) \<Rightarrow> AgentState \<Rightarrow> exn + AgentState" where
  "network_run step model st =
     (case network_trace step model st of
        (Some e, trace) \<Rightarrow> Inl e
      | (None, trace) \<Rightarrow> Inr (last (st # trace)))"

subsection \<open>The world outside a Run\<close>

datatype message_role = USER | ASSISTANT

datatype message_type = RESULT | ERROR

record fragment =
  sandboxUrl :: string
  title :: string
  fragment_files :: files_obj

record message =
  projectId :: string
  content :: string
  role :: message_role
  msg_type :: message_type
  createdAt :: int
  msg_fragment :: "fragment option"

record event =
  ev_value :: string
  ev_projectId :: string
  ev_userId :: string

text \<open>
  The world: the rows of the message table in the order of their creation, the
  arguments of the calls of \<^verbatim>\<open>refundCredit\<close>, the arguments of the calls of the
  ledger's \<^verbatim>\<open>reward\<close>, and the names of the workflow's own steps that were run.
\<close>

record world =
  messages :: "message list"
  refund_calls :: "string list"
  reward_calls :: "(string \<times> nat) list"
  steps :: "string list"

definition log_step :: "string \<Rightarrow> world \<Rightarrow> world" where
  "log_step name w = w\<lparr>steps := steps w @ [name]\<rparr>"

text \<open>
  \<^verbatim>\<open>prisma.message.create\<close>: it throws and leaves the table as it was, or it appends
  the row.
\<close>

definition message_create :: "exn option \<Rightarrow> message \<Rightarrow> world \<Rightarrow> exn option \<times> world" where
  "message_create outcome m w =
     (case outcome of
        Some e \<Rightarrow> (Some e, w)
      | None \<Rightarrow> (None, w\<lparr>messages := messages w @ [m]\<rparr>))"

text \<open>
  The \<^verbatim>\<open>findFirst\<close> of \<^verbatim>\<open>save-error-message\<close>: an ERROR row of the project whose
  \<^verbatim>\<open>createdAt\<close> is at least \<^verbatim>\<open>Date.now() - 60000\<close>.
\<close>

definition existingErrorMessage :: "string \<Rightarrow> int \<Rightarrow> message list \<Rightarrow> message option" where
  "existingErrorMessage pid now ms =
     find (\<lambda>m. projectId m = pid \<and> msg_type m = ERROR \<and> now - 60000 \<le> createdAt m) ms"

subsection \<open>refundCredit (usage.ts 37-54)\<close>

definition GENERATION_COST :: nat where
  "GENERATION_COST = 1"

text \<open>
  What the outside does during one call of \<^verbatim>\<open>refundCredit\<close>: \<^verbatim>\<open>auth()\<close> throws
  or gives a user id (or none), \<^verbatim>\<open>getUsageTracker\<close> throws or not, \<^verbatim>\<open>reward\<close>
  throws or not.
\<close>

record ledger_io =
  auth_userId :: "exn + string option"
  usage_tracker :: "exn option"
  reward :: "exn option"

definition not_authenticated :: exn where
  "not_authenticated = Exn True ''User not authenticated'' ''Error: User not authenticated''"

definition refundCredit :: "ledger_io \<Rightarrow> string \<Rightarrow> world \<Rightarrow> exn option \<times> world" where
  "refundCredit io userIdParam w =
     (let w0 = w\<lparr>refund_calls := refund_calls w @ [userIdParam]\<rparr> in
      case auth_userId io of
        Inl e \<Rightarrow> (Some e, w0)
      | Inr authUserId \<Rightarrow>
          (case (if truthy userIdParam then Some userIdParam else authUserId) of
             None \<Rightarrow> (Some not_authenticated, w0)
           | Some userId \<Rightarrow>
               (if \<not> truthy userId then (Some not_authenticated, w0)
                else
                  (case usage_tracker io of
                     Some e \<Rightarrow> (Some e, w0)
                   | None \<Rightarrow>
                       (let w1 = w0\<lparr>reward_calls := reward_calls w0 @ [(userId, GENERATION_COST)]\<rparr>
                        in (reward io, w1))))))"

subsection \<open>The workflow (prompt.ts 523-877)\<close>

datatype text_content = Str string | Parts "string list"

datatype out_message = TextMessage text_content | OtherMessage

text \<open>
  \<^verbatim>\<open>generateFragmentTitle\<close> and \<^verbatim>\<open>generateResponse\<close> differ in their default only.
\<close>

definition first_text_or :: "string \<Rightarrow> out_message list \<Rightarrow> string" where
  "first_text_or dflt out =
     (case out of
        [] \<Rightarrow> dflt
      | OtherMessage # _ \<Rightarrow> dflt
      | TextMessage (Parts ps) # _ \<Rightarrow> concat ps
      | TextMessage (Str s) # _ \<Rightarrow> s)"

definition generateFragmentTitle :: "out_message list \<Rightarrow> string" where
  "generateFragmentTitle out = first_text_or ''Fragment'' out"

definition generateResponse :: "out_message list \<Rightarrow> string" where
  "generateResponse out = first_text_or ''Here you go!'' out"

text \<open>
  The two result objects: \<^verbatim>\<open>{success: true, url, title, files, summary}\<close> and
  \<^verbatim>\<open>{error: true, message}\<close>.
\<close>

datatype result =
    Success (res_url: string) (res_title: string) (res_files: files_obj) (res_summary: string)
  | Failure (res_message: string)

text \<open>
  What the outside does during one Run, in the order of the awaits. \<open>io_created_at\<close> is
  the \<^verbatim>\<open>createdAt\<close> that the database gives to a row this Run creates, \<open>io_now\<close> is
  \<^verbatim>\<open>Date.now()\<close> in \<^verbatim>\<open>save-error-message\<close>.
\<close>

record run_io =
  io_sandbox_create :: "exn + string"
  io_previous_messages :: "exn option"
  io_step :: bool
  io_model :: "nat \<Rightarrow> exn + reply"
  io_refund :: ledger_io
  io_save_error_result :: "exn option"
  io_title :: "exn + out_message list"
  io_response :: "exn + out_message list"
  io_get_host :: "exn + string"
  io_save_success_result :: "exn option"
  io_refund_on_error :: ledger_io
  io_find_first :: "exn option"
  io_save_error_message :: "exn option"
  io_now :: int
  io_created_at :: int

definition isError :: "AgentState \<Rightarrow> bool" where
  "isError st = (\<not> truthy (summary st) \<or> length (Object_keys (files st)) = 0)"

definition error_row :: "string \<Rightarrow> string \<Rightarrow> int \<Rightarrow> message" where
  "error_row pid text at =
     \<lparr>projectId = pid, content = text, role = ASSISTANT, msg_type = ERROR,
      createdAt = at, msg_fragment = None\<rparr>"

text \<open>
  The block under \<^verbatim>\<open>if (isError)\<close>. The refund step catches what
  \<^verbatim>\<open>refundCredit\<close> throws; \<^verbatim>\<open>save-error-result\<close> catches nothing. The clean-up
  after it sits in a \<^verbatim>\<open>try\<close> of its own and changes nothing.
\<close>

definition completion_failure :: "run_io \<Rightarrow> event \<Rightarrow> world \<Rightarrow> (exn + result) \<times> world" where
  "completion_failure io ev w =
     (let w1 = log_step ''refund-credit'' w;
          w2 = snd (refundCredit (io_refund io) (ev_userId ev) w1);
          w3 = log_step ''save-error-result'' w2
      in
        case message_create (io_save_error_result io)
               (error_row (ev_projectId ev)
                  ''Sorry, I failed to generate a response. Please try again with a more specific prompt or simpler request.''
                  (io_created_at io)) w3 of
          (Some e, w4) \<Rightarrow> (Inl e, w4)
        | (None, w4) \<Rightarrow> (Inr (Failure ''Failed to generate code''), w4))"

text \<open>The rest of the \<^verbatim>\<open>try\<close> block, from the two generators to the success result.\<close>

definition success_path ::
  "run_io \<Rightarrow> event \<Rightarrow> AgentState \<Rightarrow> world \<Rightarrow> (exn + result) \<times> world"
where
  "success_path io ev st w =
     (case io_title io of
        Inl e \<Rightarrow> (Inl e, w)
      | Inr fragmentTitleOutput \<Rightarrow>
          (case io_response io of
             Inl e \<Rightarrow> (Inl e, w)
           | Inr responseOutput \<Rightarrow>
               (let w1 = log_step ''get-sandbox-url'' w in
                case io_get_host io of
                  Inl e \<Rightarrow> (Inl e, w1)
                | Inr host \<Rightarrow>
                    (let sandboxUrl' = ''https://'' @ host;
                         w2 = log_step ''save-success-result'' w1
                     in
                       case message_create (io_save_success_result io)
                              \<lparr>projectId = ev_projectId ev,
                               content = generateResponse responseOutput,
                               role = ASSISTANT, msg_type = RESULT,
                               createdAt = io_created_at io,
                               msg_fragment =
                                 Some \<lparr>sandboxUrl = sandboxUrl',
                                       title = generateFragmentTitle fragmentTitleOutput,
                                       fragment_files = files st\<rparr>\<rparr> w2 of
                         (Some e, w3) \<Rightarrow> (Inl e, w3)
                       | (None, w3) \<Rightarrow>
                           (Inr (Success sandboxUrl' (generateFragmentTitle fragmentTitleOutput)
                                   (files st) (summary st)), w3)))))"

text \<open>The \<^verbatim>\<open>try\<close> block.\<close>

definition try_body :: "run_io \<Rightarrow> event \<Rightarrow> world \<Rightarrow> (exn + result) \<times> world" where
  "try_body io ev w =
     (let w1 = log_step ''get-sandbox-id'' w in
      case io_sandbox_create io of
        Inl e \<Rightarrow> (Inl e, w1)
      | Inr sandboxId \<Rightarrow>
          (let w2 = log_step ''get-previous-messages'' w1 in
           case io_previous_messages io of
             Some e \<Rightarrow> (Inl e, w2)
           | None \<Rightarrow>
               (case network_run (io_step io) (io_model io) initial_state of
                  Inl e \<Rightarrow> (Inl e, w2)
                | Inr st \<Rightarrow>
                    (if isError st then completion_failure io ev w2
                     else success_path io ev st w2))))"

text \<open>
  The \<^verbatim>\<open>catch\<close> block. The refund step catches what \<^verbatim>\<open>refundCredit\<close> throws;
  \<^verbatim>\<open>save-error-message\<close> catches nothing. The clean-up after it sits in a
  \<^verbatim>\<open>try\<close> of its own and changes nothing.
\<close>

definition catch_handler :: "run_io \<Rightarrow> event \<Rightarrow> exn \<Rightarrow> world \<Rightarrow> (exn + result) \<times> world" where
  "catch_handler io ev error w =
     (let w1 = log_step ''refund-credit-on-error'' w;
          w2 = snd (refundCredit (io_refund_on_error io) (ev_userId ev) w1);
          w3 = log_step ''save-error-message'' w2;
          answer = Failure (if is_Error error then exn_message error else ''Unknown error'')
      in
        case io_find_first io of
          Some e \<Rightarrow> (Inl e, w3)
        | None \<Rightarrow>
            (case existingErrorMessage (ev_projectId ev) (io_now io) (messages w3) of
               Some existing \<Rightarrow> (Inr answer, w3)
             | None \<Rightarrow>
                 (case message_create (io_save_error_message io)
                         (error_row (ev_projectId ev)
                            ''Sorry, an unexpected error occurred. Please try again.''
                            (io_created_at io)) w3 of
                    (Some e, w4) \<Rightarrow> (Inl e, w4)
                  | (None, w4) \<Rightarrow> (Inr answer, w4))))"

text \<open>
  The workflow function: \<open>Inl\<close> when it throws at its boundary, \<open>Inr\<close> when it returns.
\<close>

definition codeAgentFunction :: "run_io \<Rightarrow> event \<Rightarrow> world \<Rightarrow> (exn + result) \<times> world" where
  "codeAgentFunction io ev w =
     (case try_body io ev w of
        (Inr r, w') \<Rightarrow> (Inr r, w')
      | (Inl error, w') \<Rightarrow> catch_handler io ev error w')"

section \<open>Sample runs\<close>

text \<open>
  Concrete events, worlds and outside behaviours, on which the statements below are
  evaluated.
\<close>

definition sample_event :: event where
  "sample_event = \<lparr>ev_value = ''build a counter'', ev_projectId = ''p1'', ev_userId = ''u1''\<rparr>"

definition empty_world :: world where
  "empty_world = \<lparr>messages = [], refund_calls = [], reward_calls = [], steps = []\<rparr>"

definition ok_ledger :: ledger_io where
  "ok_ledger = \<lparr>auth_userId = Inr None, usage_tracker = None, reward = None\<rparr>"

definition db_down :: exn where
  "db_down = Exn True ''database unavailable'' ''Error: database unavailable''"

definition silent_reply :: reply where
  "silent_reply = \<lparr>last_text = None, tool_calls = []\<rparr>"

definition ok_files_io :: files_io where
  "ok_files_io = \<lparr>cou_getSandbox = None, cou_write = (\<lambda>i. None)\<rparr>"

definition scenarioB_model :: "nat \<Rightarrow> exn + reply" where
  "scenarioB_model n =
     (if n = 0 then
        Inr \<lparr>last_text = None,
             tool_calls = [CreateOrUpdateFiles [(''app/page.tsx'', ''counter'')] ok_files_io]\<rparr>
      else if n = 2 then
        Inr \<lparr>last_text = Some ''<task_summary>Built a counter</task_summary>'', tool_calls = []\<rparr>
      else Inr silent_reply)"

definition nonconverging_io :: run_io where
  "nonconverging_io =
     \<lparr>io_sandbox_create = Inr ''sbx1'',
      io_previous_messages = None,
      io_step = True,
      io_model = (\<lambda>n. Inr silent_reply),
      io_refund = ok_ledger,
      io_save_error_result = None,
      io_title = Inr [TextMessage (Str ''Counter'')],
      io_response = Inr [TextMessage (Parts [''Here is '', ''your counter.''])],
      io_get_host = Inr ''3000-sbx1.e2b.app'',
      io_save_success_result = None,
      io_refund_on_error = ok_ledger,
      io_find_first = None,
      io_save_error_message = None,
      io_now = 10000,
      io_created_at = 10000\<rparr>"

definition scenarioB_io :: run_io where
  "scenarioB_io = nonconverging_io\<lparr>io_model := scenarioB_model\<rparr>"

definition sandbox_down :: exn where
  "sandbox_down = Exn True ''sandbox unavailable'' ''Error: sandbox unavailable''"

definition provisioning_fails_io :: run_io where
  "provisioning_fails_io = nonconverging_io\<lparr>io_sandbox_create := Inl sandbox_down\<rparr>"

definition world_with_recent_error :: world where
  "world_with_recent_error =
     empty_world\<lparr>messages :=
       [error_row ''p1'' ''Sorry, an unexpected error occurred. Please try again.'' 0]\<rparr>"

text \<open>
  A table in which the project's ERROR row is followed by later rows: the USER row of a
  retry, and a row of another project.
\<close>

definition user_row :: "string \<Rightarrow> string \<Rightarrow> int \<Rightarrow> message" where
  "user_row pid c at =
     \<lparr>projectId = pid, content = c, role = USER, msg_type = RESULT,
      createdAt = at, msg_fragment = None\<rparr>"

definition world_with_error_then_retry :: world where
  "world_with_error_then_retry =
     empty_world\<lparr>messages :=
       [error_row ''p1'' ''Sorry, an unexpected error occurred. Please try again.'' 0,
        user_row ''p1'' ''build a counter'' 5000,
        user_row ''p2'' ''build a clock'' 6000]\<rparr>"

definition later_io :: "run_io \<Rightarrow> run_io" where
  "later_io io = io\<lparr>io_now := 20000, io_created_at := 20000\<rparr>"

definition disk_full :: exn where
  "disk_full = Exn True ''disk full'' ''Error: disk full''"

definition second_write_fails_io :: files_io where
  "second_write_fails_io =
     \<lparr>cou_getSandbox = None, cou_write = (\<lambda>i. if i = 1 then Some disk_full else None)\<rparr>"

definition db_timeout :: exn where
  "db_timeout = Exn True ''connection timed out'' ''Error: connection timed out''"

definition save_error_result_fails_io :: run_io where
  "save_error_result_fails_io = nonconverging_io\<lparr>io_save_error_result := Some db_timeout\<rparr>"

definition db_down_io :: run_io where
  "db_down_io = nonconverging_io\<lparr>io_previous_messages := Some db_down, io_find_first := Some db_down\<rparr>"

definition command_ok_io :: terminal_io where
  "command_ok_io =
     \<lparr>term_getSandbox = None,
      term_chunks = [OnStdout ''a.ts'', OnStderr ''warning''],
      term_run = Inr \<lparr>stdout = ''a.ts'', stderr = ''warning'', exitCode = 0\<rparr>\<rparr>"

definition command_exit_1 :: exn where
  "command_exit_1 = Exn True ''exit status 1'' ''CommandExitError: exit status 1''"

definition command_fails_io :: terminal_io where
  "command_fails_io =
     \<lparr>term_getSandbox = None,
      term_chunks = [OnStdout ''a.ts'', OnStderr ''warning''],
      term_run = Inl command_exit_1\<rparr>"

section \<open>The tool layer\<close>

subsection \<open>The terminal tool\<close>

text \<open>
  C10. When the sandbox command completes without throwing, the terminal tool returns
  the \<^verbatim>\<open>stdout\<close> of the command's result and nothing else. When the command throws,
  it returns the formatted error text, which embeds the thrown value and both captured
  streams; only there does the captured \<^verbatim>\<open>stderr\<close> reach the agent.
\<close>

theorem terminal_output:
  "(term_getSandbox io = None \<and> term_run io = Inr result \<longrightarrow>
      terminal_handler True io command = Text (stdout result))
   \<and> (term_getSandbox io = None \<and> term_run io = Inl e \<longrightarrow>
      terminal_handler True io command =
        Text (''Command failed: '' @ exn_text e @ '' \<newline>stdout: ''
              @ buf_stdout (foldl feed empty_buffers (term_chunks io))
              @ ''\<newline>stderr: '' @ buf_stderr (foldl feed empty_buffers (term_chunks io))))"
  by (simp add: terminal_handler_def terminal_step_def command_failed_def Let_def)

text \<open>
  C10 at two commands that print a line on each stream: one that completes and one that
  exits with status 1.
\<close>

theorem terminal_output_witness:
  "term_getSandbox command_ok_io = None
   \<and> term_run command_ok_io = Inr \<lparr>stdout = ''a.ts'', stderr = ''warning'', exitCode = 0\<rparr>
   \<and> terminal_handler True command_ok_io ''ls'' = Text ''a.ts''
   \<and> term_getSandbox command_fails_io = None
   \<and> term_run command_fails_io = Inl command_exit_1
   \<and> terminal_handler True command_fails_io ''ls''
       = Text (''Command failed: CommandExitError: exit status 1 \<newline>stdout: a.ts\<newline>stderr: warning'')"
proof -
  have ok: "term_getSandbox command_ok_io = None
     \<and> term_run command_ok_io = Inr \<lparr>stdout = ''a.ts'', stderr = ''warning'', exitCode = 0\<rparr>"
    by (simp add: command_ok_io_def)
  have bad: "term_getSandbox command_fails_io = None \<and> term_run command_fails_io = Inl command_exit_1"
    by (simp add: command_fails_io_def)
  have rendered: "''Command failed: '' @ exn_text command_exit_1 @ '' \<newline>stdout: ''
              @ buf_stdout (foldl feed empty_buffers (term_chunks command_fails_io))
              @ ''\<newline>stderr: '' @ buf_stderr (foldl feed empty_buffers (term_chunks command_fails_io))
      = ''Command failed: CommandExitError: exit status 1 \<newline>stdout: a.ts\<newline>stderr: warning''"
    by code_simp
  from terminal_output [of command_ok_io "\<lparr>stdout = ''a.ts'', stderr = ''warning'', exitCode = 0\<rparr>" "''ls''"]
    terminal_output [of command_fails_io _ "''ls''" command_exit_1] ok bad rendered
  show ?thesis by simp
qed

subsection \<open>The createOrUpdateFiles tool\<close>

lemma write_loop_keys:
  "set (Object_keys obj) \<subseteq> set (Object_keys (snd (write_loop wr i fs obj)))"
proof (induction fs arbitrary: i obj)
  case Nil
  show ?case by simp
next
  case (Cons f rest)
  show ?case
  proof (cases "wr i")
    case None
    have "set (Object_keys obj) \<subseteq> set (Object_keys (AList.update (fst f) (snd f) obj))"
      by (auto simp: Object_keys_def AList.dom_update)
    also have "\<dots> \<subseteq> set (Object_keys (snd (write_loop wr (Suc i) rest (AList.update (fst f) (snd f) obj))))"
      by (rule Cons.IH)
    finally show ?thesis using None by simp
  next
    case (Some e)
    then show ?thesis by simp
  qed
qed

lemma createOrUpdateFiles_handler_files:
  "files (snd (createOrUpdateFiles_handler step io fs st)) =
     (if step \<and> cou_getSandbox io = None then snd (write_loop (cou_write io) 0 fs (files st))
      else files st)"
  by (simp add: createOrUpdateFiles_handler_def createOrUpdateFiles_step_def
      split: option.splits prod.splits step_value.splits)

text \<open>The handler has no \<^verbatim>\<open>return\<close>: the agent gets nothing back from it.\<close>

lemma createOrUpdateFiles_handler_returns_nothing:
  "fst (createOrUpdateFiles_handler step io fs st) = Undefined"
  by (simp add: createOrUpdateFiles_handler_def Let_def split: prod.splits)

text \<open>
  When the exception comes before any file of the batch was written, the state is what it
  was before the call.
\<close>

lemma createOrUpdateFiles_nothing_written:
  assumes "cou_getSandbox io \<noteq> None \<or> cou_write io 0 \<noteq> None"
  shows "snd (createOrUpdateFiles_handler step io fs st) = st"
proof (cases "cou_getSandbox io")
  case (Some e)
  then show ?thesis
    by (simp add: createOrUpdateFiles_handler_def createOrUpdateFiles_step_def)
next
  case None
  with assms obtain e where "cou_write io 0 = Some e" by auto
  with None show ?thesis
    by (cases fs) (simp_all add: createOrUpdateFiles_handler_def createOrUpdateFiles_step_def)
qed

text \<open>
  C3. A batch of two files whose second write throws. The callback of the step gives the
  error-tagged string, so the handler skips its assignment; but the first file is in
  \<^verbatim>\<open>AgentState.files\<close> all the same, stored through \<^verbatim>\<open>updatedFiles\<close> into the
  object that the state holds, and the handler returns nothing to the agent.
\<close>

theorem createOrUpdateFiles_partial_batch:
  "createOrUpdateFiles_handler True second_write_fails_io
      [(''a.ts'', ''x''), (''b.ts'', ''y'')] initial_state
     = (Undefined, \<lparr>summary = [], files = [(''a.ts'', ''x'')]\<rparr>)
   \<and> fst (createOrUpdateFiles_step second_write_fails_io
      [(''a.ts'', ''x''), (''b.ts'', ''y'')] (files initial_state)) = StrVal ''Error:Error: disk full''"
  by code_simp

text \<open>
  Two batches, the second overwriting a path of the first: the map keeps both paths, with
  the later content.
\<close>

lemma createOrUpdateFiles_overwrites:
  "snd (createOrUpdateFiles_handler True ok_files_io [(''a.ts'', ''z'')]
      (snd (createOrUpdateFiles_handler True ok_files_io
          [(''a.ts'', ''x''), (''b.ts'', ''y'')] initial_state)))
     = \<lparr>summary = [], files = [(''a.ts'', ''z''), (''b.ts'', ''y'')]\<rparr>"
  by code_simp

subsection \<open>The file map across tool invocations\<close>

lemma invoke_tool_keys:
  "set (Object_keys (files st)) \<subseteq> set (Object_keys (files (snd (invoke_tool step call st))))"
proof (cases call)
  case (CreateOrUpdateFiles fs io)
  then show ?thesis
    using write_loop_keys [of "files st" "cou_write io" 0 fs]
    by (simp add: createOrUpdateFiles_handler_files)
qed simp_all

text \<open>
  C9. No tool invocation removes a path from \<^verbatim>\<open>AgentState.files\<close>: the keys before
  the invocation are among the keys after it, whatever the tool, its arguments and the
  behaviour of the sandbox. \<^verbatim>\<open>readFiles\<close> and \<^verbatim>\<open>terminal\<close> leave the whole state as
  it is.
\<close>

theorem files_keys_never_shrink:
  "set (Object_keys (files st)) \<subseteq> set (Object_keys (files (snd (invoke_tool step call st))))
   \<and> snd (invoke_tool step (ReadFiles paths rio) st) = st
   \<and> snd (invoke_tool step (Terminal command tio) st) = st"
  using invoke_tool_keys [of st step call] by simp

text \<open>The same over the tool calls of a round, and over a round.\<close>

lemma invoke_tools_keys:
  "set (Object_keys (files st)) \<subseteq> set (Object_keys (files (invoke_tools step calls st)))"
proof (induction calls arbitrary: st)
  case Nil
  show ?case by simp
next
  case (Cons call calls)
  have "set (Object_keys (files st))
      \<subseteq> set (Object_keys (files (snd (invoke_tool step call st))))"
    by (rule invoke_tool_keys)
  also have "\<dots> \<subseteq> set (Object_keys (files (invoke_tools step calls (snd (invoke_tool step call st)))))"
    by (rule Cons.IH)
  finally show ?case by simp
qed

lemma run_round_keys:
  "run_round step answer st = Inr st' \<Longrightarrow>
   set (Object_keys (files st)) \<subseteq> set (Object_keys (files st'))"
  using invoke_tools_keys [of "onResponse (last_text (projr answer)) st" step "tool_calls (projr answer)"]
  by (auto simp: run_round_def onResponse_def split: sum.splits option.splits if_splits)

section \<open>The agent loop\<close>

lemma network_loop_bound: "rounds_started (network_loop n step model c st) \<le> n"
proof (induction n arbitrary: c st)
  case 0
  show ?case by (simp add: rounds_started_def)
next
  case (Suc n)
  show ?case
  proof (cases "router st")
    case None
    then show ?thesis by (simp add: rounds_started_def)
  next
    case (Some a)
    show ?thesis
    proof (cases "run_round step (model c) st")
      case (Inl e)
      with Some show ?thesis by (cases a) (simp add: rounds_started_def)
    next
      case (Inr st')
      with Some Suc.IH [of "Suc c" st'] show ?thesis
        by (cases a) (auto simp: rounds_started_def split: prod.splits)
    qed
  qed
qed

text \<open>
  C7. The loop starts at most 15 rounds, whatever the model answers and whatever the
  state it begins with, also when the summary is never set.
\<close>

theorem at_most_15_rounds: "rounds_started (network_trace step model st) \<le> 15"
  using network_loop_bound [of maxIter step model 0 st]
  by (simp add: network_trace_def maxIter_def)

lemma network_loop_halts:
  "i < length (snd (network_loop n step model c st)) \<Longrightarrow>
   truthy (summary (snd (network_loop n step model c st) ! i)) \<Longrightarrow>
   rounds_started (network_loop n step model c st) = Suc i"
proof (induction n arbitrary: c st i)
  case 0
  then show ?case by simp
next
  case (Suc n)
  show ?case
  proof (cases "router st")
    case None
    with Suc.prems show ?thesis by simp
  next
    case (Some a)
    show ?thesis
    proof (cases "run_round step (model c) st")
      case (Inl e)
      with Some Suc.prems show ?thesis by (cases a) simp
    next
      case (Inr st')
      obtain r tr where loop: "network_loop n step model (Suc c) st' = (r, tr)"
        by (cases "network_loop n step model (Suc c) st'")
      have whole: "network_loop (Suc n) step model c st = (r, st' # tr)"
        using Some Inr loop by (cases a) simp
      show ?thesis
      proof (cases i)
        case 0
        with Suc.prems(2) whole have "truthy (summary st')" by simp
        then have "router st' = None" by (simp add: router_def)
        then have "r = None \<and> tr = []" using loop by (cases n) auto
        with whole 0 show ?thesis by (simp add: rounds_started_def)
      next
        case (Suc j)
        with Suc.prems whole loop have "j < length (snd (network_loop n step model (Suc c) st'))"
          and "truthy (summary (snd (network_loop n step model (Suc c) st') ! j))"
          by simp_all
        then have "rounds_started (network_loop n step model (Suc c) st') = Suc j"
          by (rule Suc.IH)
        with whole loop Suc show ?thesis by (simp add: rounds_started_def)
      qed
    qed
  qed
qed

text \<open>
  C6. If the summary is non-empty in the state that a round leaves, which is the state
  the router inspects next, that round is the last one the loop starts in the Run.
\<close>

theorem no_round_after_summary:
  assumes "i < length (snd (network_trace step model st))"
      and "summary (snd (network_trace step model st) ! i) \<noteq> []"
  shows "rounds_started (network_trace step model st) = Suc i"
  using assms network_loop_halts [of i maxIter step model 0 st]
  by (simp add: network_trace_def truthy_def)

text \<open>
  C6 at a model that writes a file in its first round and gives its summary in its third
  round: the loop starts three rounds and no fourth.
\<close>

theorem no_round_after_summary_witness:
  "2 < length (snd (network_trace True scenarioB_model initial_state))
   \<and> summary (snd (network_trace True scenarioB_model initial_state) ! 2) \<noteq> []
   \<and> rounds_started (network_trace True scenarioB_model initial_state) = Suc 2"
proof -
  have h1: "2 < length (snd (network_trace True scenarioB_model initial_state))"
    by code_simp
  have h2: "summary (snd (network_trace True scenarioB_model initial_state) ! 2) \<noteq> []"
    by code_simp
  from no_round_after_summary [OF h1 h2] h1 h2 show ?thesis by blast
qed

section \<open>The workflow\<close>

subsection \<open>What each block does to the world\<close>

lemma refundCredit_world:
  "messages (snd (refundCredit io u w)) = messages w
   \<and> steps (snd (refundCredit io u w)) = steps w
   \<and> refund_calls (snd (refundCredit io u w)) = refund_calls w @ [u]"
  by (simp add: refundCredit_def Let_def split: sum.splits option.splits)

lemma completion_failure_cases:
  assumes "completion_failure io ev w = (r, w')"
  shows "refund_calls w' = refund_calls w @ [ev_userId ev]
    \<and> (case io_save_error_result io of
         None \<Rightarrow> r = Inr (Failure ''Failed to generate code'')
                 \<and> (\<exists>c. messages w' = messages w @ [error_row (ev_projectId ev) c (io_created_at io)])
                 \<and> last (steps w') = ''save-error-result''
       | Some e \<Rightarrow> r = Inl e \<and> messages w' = messages w)"
  using assms refundCredit_world [of "io_refund io" "ev_userId ev" "log_step ''refund-credit'' w"]
  by (auto simp: completion_failure_def message_create_def log_step_def Let_def
      split: option.splits)

lemma success_path_cases:
  assumes "success_path io ev st w = (r, w')"
  shows "refund_calls w' = refund_calls w
    \<and> (case r of
         Inl e \<Rightarrow> messages w' = messages w
       | Inr res \<Rightarrow> (\<exists>u t. res = Success u t (files st) (summary st))
                   \<and> (\<exists>m. messages w' = messages w @ [m] \<and> msg_type m = RESULT)
                   \<and> last (steps w') = ''save-success-result'')"
  using assms
  by (auto simp: success_path_def message_create_def log_step_def Let_def
      split: option.splits sum.splits)

lemma try_body_cases:
  assumes "try_body io ev w = (r, w')"
  shows "(case r of
         Inl e \<Rightarrow> messages w' = messages w
                 \<and> (refund_calls w' = refund_calls w
                      \<or> refund_calls w' = refund_calls w @ [ev_userId ev])
       | Inr (Success u t f s) \<Rightarrow>
           (\<exists>m. messages w' = messages w @ [m] \<and> msg_type m = RESULT)
           \<and> last (steps w') = ''save-success-result''
           \<and> refund_calls w' = refund_calls w
       | Inr (Failure msg) \<Rightarrow>
           (\<exists>c. messages w' = messages w @ [error_row (ev_projectId ev) c (io_created_at io)])
           \<and> last (steps w') = ''save-error-result''
           \<and> refund_calls w' = refund_calls w @ [ev_userId ev])"
proof (cases "io_sandbox_create io")
  case (Inl e)
  with assms show ?thesis by (auto simp: try_body_def log_step_def Let_def)
next
  case create: (Inr sandboxId)
  show ?thesis
  proof (cases "io_previous_messages io")
    case (Some e)
    with assms create show ?thesis by (auto simp: try_body_def log_step_def Let_def)
  next
    case None
    show ?thesis
    proof (cases "network_run (io_step io) (io_model io) initial_state")
      case (Inl e)
      with assms create None show ?thesis by (auto simp: try_body_def log_step_def Let_def)
    next
      case (Inr st)
      let ?w2 = "log_step ''get-previous-messages'' (log_step ''get-sandbox-id'' w)"
      have w2: "messages ?w2 = messages w" "refund_calls ?w2 = refund_calls w"
        by (simp_all add: log_step_def)
      show ?thesis
      proof (cases "isError st")
        case True
        with assms create None Inr have "completion_failure io ev ?w2 = (r, w')"
          by (simp add: try_body_def Let_def)
        from completion_failure_cases [OF this] w2 show ?thesis
          by (auto split: option.splits)
      next
        case False
        with assms create None Inr have "success_path io ev st ?w2 = (r, w')"
          by (simp add: try_body_def Let_def)
        from success_path_cases [OF this] w2 show ?thesis
          by (auto split: sum.splits)
      qed
    qed
  qed
qed

lemma catch_handler_cases:
  assumes "catch_handler io ev error w = (r, w')"
  shows "refund_calls w' = refund_calls w @ [ev_userId ev]
    \<and> last (steps w') = ''save-error-message''
    \<and> (case r of
         Inl e \<Rightarrow> messages w' = messages w
       | Inr res \<Rightarrow>
           res = Failure (if is_Error error then exn_message error else ''Unknown error'')
           \<and> io_find_first io = None
           \<and> (case existingErrorMessage (ev_projectId ev) (io_now io) (messages w) of
                Some existing \<Rightarrow> messages w' = messages w
              | None \<Rightarrow> (\<exists>c. messages w' = messages w @ [error_row (ev_projectId ev) c (io_created_at io)])))"
  using assms
    refundCredit_world [of "io_refund_on_error io" "ev_userId ev" "log_step ''refund-credit-on-error'' w"]
  by (auto simp: catch_handler_def message_create_def log_step_def Let_def
      split: option.splits)

lemma completion_failure_steps:
  "steps (snd (completion_failure io ev w)) = steps w @ [''refund-credit'', ''save-error-result'']"
  using refundCredit_world [of "io_refund io" "ev_userId ev" "log_step ''refund-credit'' w"]
  by (auto simp: completion_failure_def message_create_def log_step_def Let_def
      split: option.splits)

lemma success_path_steps:
  "steps (snd (success_path io ev st w)) = steps w
   \<or> steps (snd (success_path io ev st w)) = steps w @ [''get-sandbox-url'']
   \<or> steps (snd (success_path io ev st w)) = steps w @ [''get-sandbox-url'', ''save-success-result'']"
  by (auto simp: success_path_def message_create_def log_step_def Let_def
      split: option.splits sum.splits)

lemma catch_handler_existing:
  assumes found: "existingErrorMessage (ev_projectId ev) (io_now io) (messages w) = Some existing"
      and find_ok: "io_find_first io = None"
  shows "fst (catch_handler io ev error w)
           = Inr (Failure (if is_Error error then exn_message error else ''Unknown error''))
       \<and> messages (snd (catch_handler io ev error w)) = messages w"
  using assms
    refundCredit_world [of "io_refund_on_error io" "ev_userId ev" "log_step ''refund-credit-on-error'' w"]
  by (simp add: catch_handler_def log_step_def Let_def)

subsection \<open>The completion check\<close>

text \<open>
  C8. After the loop has ended in state \<open>st\<close>, the Run is classified as failed exactly
  when the summary is empty or the file map has no entry; either alone suffices. The
  classification is what sends the Run into the failure block: \<^verbatim>\<open>refund-credit\<close> is
  among the steps of the \<^verbatim>\<open>try\<close> block exactly in that case.
\<close>

theorem completion_check:
  "isError st = (summary st = [] \<or> files st = [])
   \<and> (io_sandbox_create io = Inr sandboxId \<and> io_previous_messages io = None
        \<and> network_run (io_step io) (io_model io) initial_state = Inr st \<longrightarrow>
      (''refund-credit'' \<in> set (drop (length (steps w)) (steps (snd (try_body io ev w)))))
        = (summary st = [] \<or> files st = []))"
proof -
  have check: "isError st = (summary st = [] \<or> files st = [])"
    by (simp add: isError_def truthy_def Object_keys_def)
  let ?w2 = "log_step ''get-previous-messages'' (log_step ''get-sandbox-id'' w)"
  have w2: "steps ?w2 = steps w @ [''get-sandbox-id'', ''get-previous-messages'']"
    by (simp add: log_step_def)
  {
    assume io: "io_sandbox_create io = Inr sandboxId" "io_previous_messages io = None"
      "network_run (io_step io) (io_model io) initial_state = Inr st"
    then have body: "try_body io ev w =
        (if isError st then completion_failure io ev ?w2 else success_path io ev st ?w2)"
      by (simp add: try_body_def Let_def)
    have "(''refund-credit'' \<in> set (drop (length (steps w)) (steps (snd (try_body io ev w)))))
        = isError st"
    proof (cases "isError st")
      case True
      with body completion_failure_steps [of io ev ?w2] w2 show ?thesis by simp
    next
      case False
      with body success_path_steps [of io ev st ?w2] w2 show ?thesis by auto
    qed
  }
  with check show ?thesis by simp
qed

text \<open>
  C8 at a Run whose model never answers with a summary: the loop ends with an empty
  summary and no file, and the failure block runs.
\<close>

theorem completion_check_witness:
  "isError initial_state = (summary initial_state = [] \<or> files initial_state = [])
   \<and> io_sandbox_create nonconverging_io = Inr ''sbx1''
   \<and> io_previous_messages nonconverging_io = None
   \<and> network_run (io_step nonconverging_io) (io_model nonconverging_io) initial_state
       = Inr initial_state
   \<and> (''refund-credit'' \<in> set (drop (length (steps empty_world))
          (steps (snd (try_body nonconverging_io sample_event empty_world)))))
       = (summary initial_state = [] \<or> files initial_state = [])"
proof -
  have h1: "io_sandbox_create nonconverging_io = Inr ''sbx1''" by code_simp
  have h2: "io_previous_messages nonconverging_io = None" by code_simp
  have h3: "network_run (io_step nonconverging_io) (io_model nonconverging_io) initial_state
       = Inr initial_state" by code_simp
  from completion_check [of initial_state nonconverging_io "''sbx1''" empty_world sample_event]
    h1 h2 h3
  show ?thesis by blast
qed

subsection \<open>Messages of a Run\<close>

text \<open>
  C1, as stated, fails: a Run whose sandbox cannot be provisioned, in a project that got
  an ERROR Message ten seconds before, returns its error object from the outer handler
  and persists no Message at all.
\<close>

theorem recent_error_suppresses_message_counterexample:
  "fst (codeAgentFunction provisioning_fails_io sample_event world_with_recent_error)
     = Inr (Failure ''sandbox unavailable'')
   \<and> messages (snd (codeAgentFunction provisioning_fails_io sample_event world_with_recent_error))
     = messages world_with_recent_error"
  by code_simp

text \<open>
  C1, amended. A Run that returns persists at most one Message. When it returns the
  success object, it has persisted exactly one Message, a RESULT. When it returns an
  error object from the completion-check path (its last step is
  \<^verbatim>\<open>save-error-result\<close>), it has persisted exactly one Message, an ERROR of its
  project. When it returns an error object from the outer handler, it has persisted
  exactly one ERROR Message of its project if the project had no ERROR Message created
  in the 60000 ms before the handler's check, and no Message otherwise.
\<close>

theorem run_persists_at_most_one_message:
  assumes run: "codeAgentFunction io ev w = (Inr r, w')"
  shows "case r of
      Success u t f s \<Rightarrow> (\<exists>m. messages w' = messages w @ [m] \<and> msg_type m = RESULT)
    | Failure msg \<Rightarrow>
        (if last (steps w') = ''save-error-result''
            \<or> existingErrorMessage (ev_projectId ev) (io_now io) (messages w) = None
         then \<exists>m. messages w' = messages w @ [m] \<and> msg_type m = ERROR
                  \<and> projectId m = ev_projectId ev
         else messages w' = messages w)"
proof -
  obtain r0 w1 where tb: "try_body io ev w = (r0, w1)"
    by (cases "try_body io ev w")
  show ?thesis
  proof (cases r0)
    case (Inr res)
    with run tb have same: "r = res" "w' = w1"
      by (simp_all add: codeAgentFunction_def)
    from try_body_cases [OF tb] Inr same show ?thesis
      by (cases r) (auto simp: error_row_def)
  next
    case (Inl error)
    with run tb have handler: "catch_handler io ev error w1 = (Inr r, w')"
      by (simp add: codeAgentFunction_def)
    from try_body_cases [OF tb] Inl have unchanged: "messages w1 = messages w"
      by simp
    from catch_handler_cases [OF handler] unchanged show ?thesis
      by (auto simp: error_row_def split: option.splits)
  qed
qed

text \<open>
  C1, amended, at a Run whose model writes one file and gives its summary in the third
  round: the Run returns the success object and has persisted one RESULT Message.
\<close>

theorem run_persists_at_most_one_message_witness:
  "codeAgentFunction scenarioB_io sample_event empty_world =
     (Inr (Success ''https://3000-sbx1.e2b.app'' ''Counter'' [(''app/page.tsx'', ''counter'')]
             ''<task_summary>Built a counter</task_summary>''),
      snd (codeAgentFunction scenarioB_io sample_event empty_world))
   \<and> (\<exists>m. messages (snd (codeAgentFunction scenarioB_io sample_event empty_world))
             = messages empty_world @ [m] \<and> msg_type m = RESULT)"
proof -
  have h: "codeAgentFunction scenarioB_io sample_event empty_world =
     (Inr (Success ''https://3000-sbx1.e2b.app'' ''Counter'' [(''app/page.tsx'', ''counter'')]
             ''<task_summary>Built a counter</task_summary>''),
      snd (codeAgentFunction scenarioB_io sample_event empty_world))"
    by code_simp
  from run_persists_at_most_one_message [OF h] h show ?thesis by simp
qed

subsection \<open>The 60 second window\<close>

text \<open>
  C2, as stated, fails: two Runs of one project that both end without a summary, ten
  seconds apart, each go through the completion-check path, which looks for no earlier
  ERROR Message; the project ends with two ERROR Messages.
\<close>

theorem completion_failures_not_deduplicated_counterexample:
  "map msg_type (messages (snd (codeAgentFunction (later_io nonconverging_io) sample_event
       (snd (codeAgentFunction nonconverging_io sample_event empty_world))))) = [ERROR, ERROR]
   \<and> map createdAt (messages (snd (codeAgentFunction (later_io nonconverging_io) sample_event
       (snd (codeAgentFunction nonconverging_io sample_event empty_world))))) = [10000, 20000]
   \<and> map projectId (messages (snd (codeAgentFunction (later_io nonconverging_io) sample_event
       (snd (codeAgentFunction nonconverging_io sample_event empty_world))))) = [''p1'', ''p1'']"
  by code_simp

text \<open>
  C2, amended. If the message table holds, anywhere in it, an ERROR Message of the
  project created at most 60000 ms before the check of the outer exception handler, then
  a fault of that project which reaches the handler, whose look-up does not throw,
  persists no further Message and the Run returns its error object: the earlier fault and
  this one leave exactly one ERROR Message. A fault reported by the completion-check path,
  whose \<^verbatim>\<open>save-error-result\<close> does not throw, appends its ERROR Message whatever the
  table holds: that path looks for no earlier one.
\<close>

theorem outer_handler_deduplicates_error_message:
  "(m \<in> set (messages w) \<and> projectId m = ev_projectId ev \<and> msg_type m = ERROR
      \<and> io_now io - 60000 \<le> createdAt m
      \<and> fst (try_body io ev w) = Inl error \<and> io_find_first io = None \<longrightarrow>
        messages (snd (codeAgentFunction io ev w)) = messages w
        \<and> fst (codeAgentFunction io ev w)
             = Inr (Failure (if is_Error error then exn_message error else ''Unknown error'')))
   \<and> (io_sandbox_create io = Inr sandboxId \<and> io_previous_messages io = None
      \<and> network_run (io_step io) (io_model io) initial_state = Inr st
      \<and> (summary st = [] \<or> files st = []) \<and> io_save_error_result io = None \<longrightarrow>
        fst (codeAgentFunction io ev w) = Inr (Failure ''Failed to generate code'')
        \<and> (\<exists>m'. messages (snd (codeAgentFunction io ev w)) = messages w @ [m']
               \<and> msg_type m' = ERROR \<and> projectId m' = ev_projectId ev
               \<and> createdAt m' = io_created_at io))"
proof (intro conjI impI)
  assume h: "m \<in> set (messages w) \<and> projectId m = ev_projectId ev \<and> msg_type m = ERROR
      \<and> io_now io - 60000 \<le> createdAt m
      \<and> fst (try_body io ev w) = Inl error \<and> io_find_first io = None"
  obtain wt where tb: "try_body io ev w = (Inl error, wt)"
    using h by (cases "try_body io ev w") simp
  from try_body_cases [OF tb] have wt: "messages wt = messages w" by simp
  have "existingErrorMessage (ev_projectId ev) (io_now io) (messages wt) \<noteq> None"
    unfolding existingErrorMessage_def find_None_iff using h wt by auto
  then obtain existing
    where found: "existingErrorMessage (ev_projectId ev) (io_now io) (messages wt) = Some existing"
    by auto
  have whole: "codeAgentFunction io ev w = catch_handler io ev error wt"
    using tb by (simp add: codeAgentFunction_def)
  from h have find_ok: "io_find_first io = None" by simp
  from catch_handler_existing [OF found find_ok, of error] whole wt
  show "messages (snd (codeAgentFunction io ev w)) = messages w"
    and "fst (codeAgentFunction io ev w)
             = Inr (Failure (if is_Error error then exn_message error else ''Unknown error''))"
    by simp_all
next
  assume h: "io_sandbox_create io = Inr sandboxId \<and> io_previous_messages io = None
      \<and> network_run (io_step io) (io_model io) initial_state = Inr st
      \<and> (summary st = [] \<or> files st = []) \<and> io_save_error_result io = None"
  let ?w2 = "log_step ''get-previous-messages'' (log_step ''get-sandbox-id'' w)"
  have w2: "messages ?w2 = messages w" by (simp add: log_step_def)
  have failed: "isError st"
    using h by (auto simp: isError_def truthy_def Object_keys_def)
  with h have body: "try_body io ev w = completion_failure io ev ?w2"
    by (simp add: try_body_def Let_def)
  obtain r w' where cf: "completion_failure io ev ?w2 = (r, w')"
    by (cases "completion_failure io ev ?w2")
  from completion_failure_cases [OF cf] h w2
  have r: "r = Inr (Failure ''Failed to generate code'')"
    and row: "\<exists>c. messages w' = messages w @ [error_row (ev_projectId ev) c (io_created_at io)]"
    by simp_all
  have whole: "codeAgentFunction io ev w = (Inr (Failure ''Failed to generate code''), w')"
    using body cf r by (simp add: codeAgentFunction_def)
  then show "fst (codeAgentFunction io ev w) = Inr (Failure ''Failed to generate code'')"
    by simp
  from row whole
  show "\<exists>m'. messages (snd (codeAgentFunction io ev w)) = messages w @ [m']
               \<and> msg_type m' = ERROR \<and> projectId m' = ev_projectId ev
               \<and> createdAt m' = io_created_at io"
    by (auto simp: error_row_def)
qed

text \<open>
  C2, amended, in a project whose ERROR Message of ten seconds before is followed by two
  later rows: a Run whose sandbox cannot be provisioned persists nothing, and a Run that
  ends without a summary appends a second ERROR Message.
\<close>

theorem outer_handler_deduplicates_error_message_witness:
  "messages (snd (codeAgentFunction provisioning_fails_io sample_event world_with_error_then_retry))
     = messages world_with_error_then_retry
   \<and> fst (codeAgentFunction provisioning_fails_io sample_event world_with_error_then_retry)
     = Inr (Failure ''sandbox unavailable'')
   \<and> fst (codeAgentFunction nonconverging_io sample_event world_with_error_then_retry)
     = Inr (Failure ''Failed to generate code'')
   \<and> (\<exists>m'. messages (snd (codeAgentFunction nonconverging_io sample_event world_with_error_then_retry))
          = messages world_with_error_then_retry @ [m']
        \<and> msg_type m' = ERROR \<and> projectId m' = ev_projectId sample_event
        \<and> createdAt m' = io_created_at nonconverging_io)"
proof -
  let ?m = "error_row ''p1'' ''Sorry, an unexpected error occurred. Please try again.'' 0"
  have a: "?m \<in> set (messages world_with_error_then_retry) \<and> projectId ?m = ev_projectId sample_event
      \<and> msg_type ?m = ERROR \<and> io_now provisioning_fails_io - 60000 \<le> createdAt ?m
      \<and> fst (try_body provisioning_fails_io sample_event world_with_error_then_retry) = Inl sandbox_down
      \<and> io_find_first provisioning_fails_io = None"
    by code_simp
  have e: "(if is_Error sandbox_down then exn_message sandbox_down else ''Unknown error'')
      = ''sandbox unavailable''"
    by code_simp
  have b: "io_sandbox_create nonconverging_io = Inr ''sbx1'' \<and> io_previous_messages nonconverging_io = None
      \<and> network_run (io_step nonconverging_io) (io_model nonconverging_io) initial_state = Inr initial_state
      \<and> (summary initial_state = [] \<or> files initial_state = [])
      \<and> io_save_error_result nonconverging_io = None"
    by code_simp
  from outer_handler_deduplicates_error_message
         [of ?m world_with_error_then_retry sample_event provisioning_fails_io sandbox_down]
       a e
  have first: "messages (snd (codeAgentFunction provisioning_fails_io sample_event world_with_error_then_retry))
       = messages world_with_error_then_retry
     \<and> fst (codeAgentFunction provisioning_fails_io sample_event world_with_error_then_retry)
       = Inr (Failure ''sandbox unavailable'')"
    by simp
  from outer_handler_deduplicates_error_message
         [of _ world_with_error_then_retry sample_event nonconverging_io _ "''sbx1''" initial_state]
       b
  have second: "fst (codeAgentFunction nonconverging_io sample_event world_with_error_then_retry)
       = Inr (Failure ''Failed to generate code'')
     \<and> (\<exists>m'. messages (snd (codeAgentFunction nonconverging_io sample_event world_with_error_then_retry))
          = messages world_with_error_then_retry @ [m']
        \<and> msg_type m' = ERROR \<and> projectId m' = ev_projectId sample_event
        \<and> createdAt m' = io_created_at nonconverging_io)"
    by blast
  from first second show ?thesis by blast
qed

subsection \<open>Refunds of a Run\<close>

text \<open>
  A Run that does not return the success object calls \<^verbatim>\<open>refundCredit\<close> for its user
  once or twice.
\<close>

lemma refund_attempts_of_failed_run:
  assumes run: "codeAgentFunction io ev w = (r, w')"
      and failed: "\<forall>u t f s. r \<noteq> Inr (Success u t f s)"
  shows "refund_calls w' = refund_calls w @ [ev_userId ev]
    \<or> refund_calls w' = refund_calls w @ [ev_userId ev, ev_userId ev]"
proof -
  obtain r0 w1 where tb: "try_body io ev w = (r0, w1)"
    by (cases "try_body io ev w")
  show ?thesis
  proof (cases r0)
    case (Inr res)
    with run tb have same: "r = Inr res" "w' = w1"
      by (simp_all add: codeAgentFunction_def)
    with failed obtain msg where "res = Failure msg" by (cases res) auto
    with try_body_cases [OF tb] Inr same show ?thesis by simp
  next
    case (Inl error)
    with run tb have handler: "catch_handler io ev error w1 = (r, w')"
      by (simp add: codeAgentFunction_def)
    from try_body_cases [OF tb] Inl
    have "refund_calls w1 = refund_calls w \<or> refund_calls w1 = refund_calls w @ [ev_userId ev]"
      by simp
    with catch_handler_cases [OF handler] show ?thesis by auto
  qed
qed

text \<open>
  C4. A Run that ends without a summary and whose \<^verbatim>\<open>save-error-result\<close> throws: the
  failure block has called \<^verbatim>\<open>refundCredit\<close> already, the exception reaches the outer
  handler, and the handler calls \<^verbatim>\<open>refundCredit\<close> again. The user is rewarded
  \<^verbatim>\<open>GENERATION_COST\<close> twice for one Run.
\<close>

theorem double_refund_after_failed_save:
  "fst (codeAgentFunction save_error_result_fails_io sample_event empty_world)
     = Inr (Failure ''connection timed out'')
   \<and> refund_calls (snd (codeAgentFunction save_error_result_fails_io sample_event empty_world))
     = [''u1'', ''u1'']
   \<and> reward_calls (snd (codeAgentFunction save_error_result_fails_io sample_event empty_world))
     = [(''u1'', 1), (''u1'', 1)]
   \<and> steps (snd (codeAgentFunction save_error_result_fails_io sample_event empty_world))
     = [''get-sandbox-id'', ''get-previous-messages'', ''refund-credit'', ''save-error-result'',
        ''refund-credit-on-error'', ''save-error-message'']"
  by code_simp

subsection \<open>The boundary of the workflow\<close>

text \<open>
  The workflow returns a result object whenever the two database calls of
  \<^verbatim>\<open>save-error-message\<close> do not throw.
\<close>

lemma returns_when_error_reporting_succeeds:
  assumes "io_find_first io = None" and "io_save_error_message io = None"
  shows "\<exists>r. fst (codeAgentFunction io ev w) = Inr r"
proof -
  obtain r0 w1 where tb: "try_body io ev w = (r0, w1)"
    by (cases "try_body io ev w")
  show ?thesis
  proof (cases r0)
    case (Inr res)
    with tb show ?thesis by (simp add: codeAgentFunction_def)
  next
    case (Inl error)
    with tb assms show ?thesis
      by (simp add: codeAgentFunction_def catch_handler_def message_create_def Let_def
          split: option.splits)
  qed
qed

text \<open>
  C5. A Run during which the database is unavailable: \<^verbatim>\<open>get-previous-messages\<close>
  throws, the outer handler refunds, and the look-up of \<^verbatim>\<open>save-error-message\<close>, which
  stands in no \<^verbatim>\<open>try\<close> of its own, throws out of the \<^verbatim>\<open>catch\<close> block. The workflow
  function throws at its boundary and returns no result object.
\<close>

theorem workflow_throws_when_error_reporting_fails:
  "fst (codeAgentFunction db_down_io sample_event empty_world) = Inl db_down"
  by code_simp

end
